theory Spec2Isabelle
  imports Main "HOL-Library.Signed_Division"
begin

section \<open>The LED controller: data model\<close>

text \<open>
  The model follows \<^verbatim>\<open>ledcontroller.go\<close>. Go's \<^verbatim>\<open>int\<close> and \<^verbatim>\<open>time.Duration\<close>
  (64 bit on the arm64 target) are modelled as \<^typ>\<open>int\<close>; durations are counted in
  nanoseconds. No arithmetic of the modelled functions leaves the 64-bit range for inputs
  inside it (the only operations are comparisons, a division by a positive constant and
  subtractions of a smaller positive value), so no wrap-around is written out.
\<close>

subsection \<open>Effect types (the const block)\<close>

definition EFFECT_NONE :: int where "EFFECT_NONE = 0"
definition EFFECT_BOOTUP :: int where "EFFECT_BOOTUP = 1"
definition EFFECT_NOTIFICATION :: int where "EFFECT_NOTIFICATION = 2"
definition EFFECT_CALL :: int where "EFFECT_CALL = 3"
definition EFFECT_CHARGING_LOW :: int where "EFFECT_CHARGING_LOW = 4"
definition EFFECT_CHARGING_HIGH :: int where "EFFECT_CHARGING_HIGH = 5"
definition EFFECT_CHARGING_COMPLETE :: int where "EFFECT_CHARGING_COMPLETE = 6"
definition EFFECT_WIFI_CONNECTING :: int where "EFFECT_WIFI_CONNECTING = 7"
definition EFFECT_WIFI_CONNECTED :: int where "EFFECT_WIFI_CONNECTED = 8"
definition EFFECT_WIFI_FAILED :: int where "EFFECT_WIFI_FAILED = 9"
definition EFFECT_BLUETOOTH_CONNECTING :: int where "EFFECT_BLUETOOTH_CONNECTING = 10"
definition EFFECT_BLUETOOTH_CONNECTED :: int where "EFFECT_BLUETOOTH_CONNECTED = 11"
definition EFFECT_BLUETOOTH_FAILED :: int where "EFFECT_BLUETOOTH_FAILED = 12"
definition EFFECT_CAMERA_FOCUS :: int where "EFFECT_CAMERA_FOCUS = 13"
definition EFFECT_CAMERA_CAPTURE :: int where "EFFECT_CAMERA_CAPTURE = 14"
definition EFFECT_CAMERA_SAVE :: int where "EFFECT_CAMERA_SAVE = 15"
definition EFFECT_PARTY :: int where "EFFECT_PARTY = 16"
definition EFFECT_MUSIC :: int where "EFFECT_MUSIC = 17"

text \<open>
  The catalog: one exported Go function per effect. Each of them is a call
  \<^verbatim>\<open>runTimedEffect(body, EFFECT_X)\<close>; \<open>effect_code\<close> is that second argument.
\<close>

datatype effect_fn =
    BootupEffect | NotificationEffect | CallNotificationEffect
  | ChargingLowBatteryEffect | ChargingHighBatteryEffect | ChargingCompleteEffect
  | WiFiConnectingEffect | WiFiConnectedEffect | WiFiFailedEffect
  | BluetoothConnectingEffect | BluetoothConnectedEffect | BluetoothFailedEffect
  | PartyEffect | CameraFocusEffect | CameraCaptureEffect | CameraSavePhotoEffect
  | MusicEffect

fun effect_code :: "effect_fn \<Rightarrow> int" where
  "effect_code BootupEffect = EFFECT_BOOTUP"
| "effect_code NotificationEffect = EFFECT_NOTIFICATION"
| "effect_code CallNotificationEffect = EFFECT_CALL"
| "effect_code ChargingLowBatteryEffect = EFFECT_CHARGING_LOW"
| "effect_code ChargingHighBatteryEffect = EFFECT_CHARGING_HIGH"
| "effect_code ChargingCompleteEffect = EFFECT_CHARGING_COMPLETE"
| "effect_code WiFiConnectingEffect = EFFECT_WIFI_CONNECTING"
| "effect_code WiFiConnectedEffect = EFFECT_WIFI_CONNECTED"
| "effect_code WiFiFailedEffect = EFFECT_WIFI_FAILED"
| "effect_code BluetoothConnectingEffect = EFFECT_BLUETOOTH_CONNECTING"
| "effect_code BluetoothConnectedEffect = EFFECT_BLUETOOTH_CONNECTED"
| "effect_code BluetoothFailedEffect = EFFECT_BLUETOOTH_FAILED"
| "effect_code PartyEffect = EFFECT_PARTY"
| "effect_code CameraFocusEffect = EFFECT_CAMERA_FOCUS"
| "effect_code CameraCaptureEffect = EFFECT_CAMERA_CAPTURE"
| "effect_code CameraSavePhotoEffect = EFFECT_CAMERA_SAVE"
| "effect_code MusicEffect = EFFECT_MUSIC"

subsection \<open>Colors, channels, errors\<close>

record Color =
  Red :: int
  Green :: int
  Blue :: int

definition ColorRed :: Color where
  "ColorRed = \<lparr>Red = 255, Green = 0, Blue = 0\<rparr>"

definition ColorGreen :: Color where
  "ColorGreen = \<lparr>Red = 0, Green = 255, Blue = 0\<rparr>"

definition ColorBlue :: Color where
  "ColorBlue = \<lparr>Red = 0, Green = 0, Blue = 255\<rparr>"

definition ColorOff :: Color where
  "ColorOff = \<lparr>Red = 0, Green = 0, Blue = 0\<rparr>"

text \<open>The colors that pass the range check of \<^verbatim>\<open>setColor\<close>.\<close>

definition in_range :: "Color \<Rightarrow> bool" where
  "in_range c =
     (0 \<le> Red c \<and> Red c \<le> 255 \<and> 0 \<le> Green c \<and> Green c \<le> 255 \<and> 0 \<le> Blue c \<and> Blue c \<le> 255)"

text \<open>The three brightness files, named after the path constants.\<close>

datatype led_path = RedLEDPath | GreenLEDPath | BlueLEDPath

text \<open>
  Go's \<^verbatim>\<open>error\<close> values: \<open>IOError\<close> is what \<^verbatim>\<open>ioutil.WriteFile\<close> returns,
  \<open>ColorRange\<close> is the range error of \<^verbatim>\<open>setColor\<close>, and \<open>SetFailed p\<close> is the
  error \<^verbatim>\<open>setColor\<close> wraps around a failed channel write. A nil error is \<open>None\<close>.
\<close>

datatype error = IOError | ColorRange | SetFailed led_path

subsection \<open>The package-level state\<close>

text \<open>
  A buffered \<^verbatim>\<open>chan bool\<close> only ever carries \<^verbatim>\<open>true\<close>, so a channel is its
  capacity and the number of values buffered in it. Channels live in a heap (a list,
  the index is the channel's identity), because \<^verbatim>\<open>StartEffect\<close> replaces the
  channel held in \<^verbatim>\<open>stopChan\<close> by a fresh one while the old one still exists.

  What happens outside the calling goroutine during a wait is an event with the time
  at which it happens: a value sent on a channel (the non-blocking send of the listener
  goroutine or of another caller), \<^verbatim>\<open>effectActive\<close> reset by another goroutine, or
  the master enable switched.
\<close>

type_synonym chan = "nat \<times> nat"

datatype ext = Signal nat | Deactivate | Enable bool

record led_state =
  ledEnabled :: bool
  effectActive :: bool
  currentEffectType :: int
  stopChan :: nat
  chans :: "chan list"
  spawned :: "effect_fn list"
  red_led :: int
  green_led :: int
  blue_led :: int
  write_log :: "(led_path \<times> int) list"
  io_faults :: "bool list"
  now :: int
  timers :: "int list"
  events :: "(int \<times> ext) list"

text \<open>
  \<open>red_led\<close>, \<open>green_led\<close>, \<open>blue_led\<close> are the numbers held by the three brightness
  files (written in decimal by \<^verbatim>\<open>fmt.Sprintf("%d", value)\<close>); \<open>write_log\<close> lists
  every attempted file write, oldest first; \<open>io_faults\<close> decides the outcome of the
  coming file writes (\<open>True\<close>: the write fails; an empty list: every write succeeds);
  \<open>spawned\<close> lists the goroutines launched by \<^verbatim>\<open>go XxxEffect()\<close>; \<open>now\<close> is the
  wall clock, \<open>timers\<close> lists the durations of the timers armed by
  \<^verbatim>\<open>time.After\<close> (oldest first), and \<open>events\<close> holds the coming events in the
  order of their times.

  The state after package initialisation: \<^verbatim>\<open>init()\<close> makes a channel of capacity 5,
  \<^verbatim>\<open>ledEnabled\<close> starts true, everything else is Go's zero value.
\<close>

definition init_state :: led_state where
  "init_state = \<lparr>ledEnabled = True, effectActive = False, currentEffectType = 0,
     stopChan = 0, chans = [(5, 0)], spawned = [],
     red_led = 0, green_led = 0, blue_led = 0, write_log = [], io_faults = [],
     now = 0, timers = [], events = []\<rparr>"

definition ms :: int where "ms = 1000000"

subsection \<open>Channels\<close>

text \<open>\<^verbatim>\<open>make(chan bool, n)\<close>: the new channel's identity is the next free index.\<close>

definition make_chan :: "nat \<Rightarrow> led_state \<Rightarrow> nat \<times> led_state" where
  "make_chan n s = (length (chans s), s\<lparr>chans := chans s @ [(n, 0)]\<rparr>)"

text \<open>
  \<^verbatim>\<open>select { case c <- true: ... default: ... }\<close>: the value is buffered when the
  channel has room and dropped otherwise (both branches only log).
\<close>

definition has_room :: "nat \<Rightarrow> led_state \<Rightarrow> bool" where
  "has_room c s = (c < length (chans s) \<and> snd (chans s ! c) < fst (chans s ! c))"

definition try_send :: "nat \<Rightarrow> led_state \<Rightarrow> led_state" where
  "try_send c s =
     (if has_room c s
      then s\<lparr>chans := (chans s)[c := (fst (chans s ! c), Suc (snd (chans s ! c)))]\<rparr>
      else s)"

text \<open>A receive is ready when a value is buffered; taking it frees one slot.\<close>

definition ready :: "nat \<Rightarrow> led_state \<Rightarrow> bool" where
  "ready c s = (c < length (chans s) \<and> 0 < snd (chans s ! c))"

definition recv :: "nat \<Rightarrow> led_state \<Rightarrow> led_state" where
  "recv c s = s\<lparr>chans := (chans s)[c := (fst (chans s ! c), snd (chans s ! c) - 1)]\<rparr>"

definition sleep :: "int \<Rightarrow> led_state \<Rightarrow> led_state" where
  "sleep d s = s\<lparr>now := now s + max 0 d\<rparr>"

section \<open>Channel sink and color composition\<close>

text \<open>
  \<^verbatim>\<open>ioutil.WriteFile(path, value)\<close>: the attempt is logged, the head of \<open>io_faults\<close>
  says whether it fails, and the file changes only when it succeeds.
\<close>

definition store :: "led_path \<Rightarrow> int \<Rightarrow> led_state \<Rightarrow> led_state" where
  "store p v s =
     (case p of RedLEDPath \<Rightarrow> s\<lparr>red_led := v\<rparr>
      | GreenLEDPath \<Rightarrow> s\<lparr>green_led := v\<rparr>
      | BlueLEDPath \<Rightarrow> s\<lparr>blue_led := v\<rparr>)"

definition WriteFile :: "led_path \<Rightarrow> int \<Rightarrow> led_state \<Rightarrow> error option \<times> led_state" where
  "WriteFile p v s =
     (let s1 = s\<lparr>write_log := write_log s @ [(p, v)]\<rparr> in
      case io_faults s of
        [] \<Rightarrow> (None, store p v s1)
      | failing # rest \<Rightarrow>
          if failing then (Some IOError, s1\<lparr>io_faults := rest\<rparr>)
          else (None, store p v (s1\<lparr>io_faults := rest\<rparr>)))"

definition IsLEDEnabled :: "led_state \<Rightarrow> bool" where
  "IsLEDEnabled s = ledEnabled s"

definition clamp255 :: "int \<Rightarrow> int" where
  "clamp255 value = (let v = (if value < 0 then 0 else value) in if v > 255 then 255 else v)"

definition setRed :: "int \<Rightarrow> led_state \<Rightarrow> error option \<times> led_state" where
  "setRed value s =
     (if \<not> ledEnabled s then (None, s) else WriteFile RedLEDPath (clamp255 value) s)"

definition setGreen :: "int \<Rightarrow> led_state \<Rightarrow> error option \<times> led_state" where
  "setGreen value s =
     (if \<not> ledEnabled s then (None, s) else WriteFile GreenLEDPath (clamp255 value) s)"

definition setBlue :: "int \<Rightarrow> led_state \<Rightarrow> error option \<times> led_state" where
  "setBlue value s =
     (if \<not> ledEnabled s then (None, s) else WriteFile BlueLEDPath (clamp255 value) s)"

definition setColor :: "Color \<Rightarrow> led_state \<Rightarrow> error option \<times> led_state" where
  "setColor color s =
     (if \<not> IsLEDEnabled s then (None, s)
      else if Red color < 0 \<or> Red color > 255 \<or> Green color < 0 \<or> Green color > 255 \<or>
              Blue color < 0 \<or> Blue color > 255
      then (Some ColorRange, s)
      else
        case setRed (Red color) s of
          (Some e, s1) \<Rightarrow> (Some (SetFailed RedLEDPath), s1)
        | (None, s1) \<Rightarrow>
            (case setGreen (Green color) s1 of
               (Some e, s2) \<Rightarrow> (Some (SetFailed GreenLEDPath), s2)
             | (None, s2) \<Rightarrow>
                 (case setBlue (Blue color) s2 of
                    (Some e, s3) \<Rightarrow> (Some (SetFailed BlueLEDPath), s3)
                  | (None, s3) \<Rightarrow> (None, s3))))"

section \<open>Effect scheduler\<close>

text \<open>
  Every function below runs under the package mutex, so it is one atomic step on the
  state; calls from different goroutines interleave as whole steps.
\<close>

definition StopCurrentEffect :: "led_state \<Rightarrow> led_state" where
  "StopCurrentEffect s =
     (let s1 = (if effectActive s then try_send (stopChan s) s else s)
      in s1\<lparr>currentEffectType := EFFECT_NONE\<rparr>)"

definition SetRed :: "int \<Rightarrow> led_state \<Rightarrow> error option \<times> led_state" where
  "SetRed value s = setRed value (StopCurrentEffect s)"

definition SetGreen :: "int \<Rightarrow> led_state \<Rightarrow> error option \<times> led_state" where
  "SetGreen value s = setGreen value (StopCurrentEffect s)"

definition SetBlue :: "int \<Rightarrow> led_state \<Rightarrow> error option \<times> led_state" where
  "SetBlue value s = setBlue value (StopCurrentEffect s)"

definition SetRGB :: "int \<Rightarrow> int \<Rightarrow> int \<Rightarrow> led_state \<Rightarrow> error option \<times> led_state" where
  "SetRGB red green blue s =
     setColor \<lparr>Red = red, Green = green, Blue = blue\<rparr> (StopCurrentEffect s)"

definition GetCurrentEffect :: "led_state \<Rightarrow> int" where
  "GetCurrentEffect s = (if \<not> effectActive s then EFFECT_NONE else currentEffectType s)"

definition IsEffectActive :: "led_state \<Rightarrow> bool" where
  "IsEffectActive s = effectActive s"

text \<open>
  \<^verbatim>\<open>SetLEDEnabled\<close> writes the three files directly (not through \<^verbatim>\<open>setRed\<close>), and
  drops the errors of these writes.
\<close>

definition SetLEDEnabled :: "bool \<Rightarrow> led_state \<Rightarrow> bool \<times> led_state" where
  "SetLEDEnabled enabled s =
     (let prevEnabled = ledEnabled s;
          s1 = s\<lparr>ledEnabled := enabled\<rparr>
      in if prevEnabled \<and> \<not> enabled
         then (True, snd (WriteFile BlueLEDPath 0
                       (snd (WriteFile GreenLEDPath 0 (snd (WriteFile RedLEDPath 0 s1))))))
         else (True, s1))"

text \<open>The \<^verbatim>\<open>switch\<close> of \<^verbatim>\<open>StartEffect\<close>, case by case; \<open>None\<close> is its default branch.\<close>

definition dispatch :: "int \<Rightarrow> effect_fn option" where
  "dispatch effectType =
     (if effectType = EFFECT_BOOTUP then Some BootupEffect
      else if effectType = EFFECT_NOTIFICATION then Some NotificationEffect
      else if effectType = EFFECT_CALL then Some CallNotificationEffect
      else if effectType = EFFECT_CHARGING_LOW then Some ChargingLowBatteryEffect
      else if effectType = EFFECT_CHARGING_HIGH then Some ChargingHighBatteryEffect
      else if effectType = EFFECT_CHARGING_COMPLETE then Some ChargingCompleteEffect
      else if effectType = EFFECT_WIFI_CONNECTING then Some WiFiConnectingEffect
      else if effectType = EFFECT_WIFI_CONNECTED then Some WiFiConnectedEffect
      else if effectType = EFFECT_WIFI_FAILED then Some WiFiFailedEffect
      else if effectType = EFFECT_BLUETOOTH_CONNECTING then Some BluetoothConnectingEffect
      else if effectType = EFFECT_BLUETOOTH_CONNECTED then Some BluetoothConnectedEffect
      else if effectType = EFFECT_BLUETOOTH_FAILED then Some BluetoothFailedEffect
      else if effectType = EFFECT_PARTY then Some PartyEffect
      else if effectType = EFFECT_CAMERA_FOCUS then Some CameraFocusEffect
      else if effectType = EFFECT_CAMERA_CAPTURE then Some CameraCaptureEffect
      else if effectType = EFFECT_CAMERA_SAVE then Some CameraSavePhotoEffect
      else None)"

definition StartEffect :: "int \<Rightarrow> led_state \<Rightarrow> bool \<times> led_state" where
  "StartEffect effectType s =
     (if \<not> IsLEDEnabled s then (False, s)
      else
        let s1 = (if effectActive s then sleep (100 * ms) (try_send (stopChan s) s) else s);
            (c, s2) = make_chan 1 s1;
            s3 = s2\<lparr>stopChan := c, effectActive := True, currentEffectType := effectType\<rparr>
        in case dispatch effectType of
             Some f \<Rightarrow> (True, s3\<lparr>spawned := spawned s3 @ [f]\<rparr>)
           | None \<Rightarrow> (False, s3\<lparr>effectActive := False\<rparr>))"

text \<open>
  \<^verbatim>\<open>runTimedEffect\<close> has two locked sections: the one before the goroutine is
  launched, and the one with which the goroutine ends once the effect body has returned
  (after a last \<^verbatim>\<open>setColor(ColorOff)\<close> and a sleep of 50 ms). The goroutine holds no
  reference to the stop channel it was started under; it reads the package variable.
\<close>

definition runTimedEffect_enter :: "int \<Rightarrow> led_state \<Rightarrow> led_state" where
  "runTimedEffect_enter effectType s =
     (let s1 = (if effectActive s then sleep (50 * ms) (try_send (stopChan s) s) else s)
      in s1\<lparr>currentEffectType := effectType, effectActive := True\<rparr>)"

definition runTimedEffect_done :: "led_state \<Rightarrow> led_state" where
  "runTimedEffect_done s =
     (let s1 = sleep (50 * ms) (snd (setColor ColorOff s))
      in s1\<lparr>effectActive := False, currentEffectType := EFFECT_NONE\<rparr>)"

section \<open>Timed primitives\<close>

subsection \<open>Waiting\<close>

text \<open>
  An event takes effect at its time. \<open>Enable\<close> is a call of \<^verbatim>\<open>SetLEDEnabled\<close> by
  another goroutine, \<open>Signal c\<close> a non-blocking send on channel \<open>c\<close>, \<open>Deactivate\<close>
  the reset of \<^verbatim>\<open>effectActive\<close> by another goroutine.
\<close>

definition apply_ext :: "ext \<Rightarrow> led_state \<Rightarrow> led_state" where
  "apply_ext e s =
     (case e of
        Signal c \<Rightarrow> try_send c s
      | Deactivate \<Rightarrow> s\<lparr>effectActive := False\<rparr>
      | Enable b \<Rightarrow> snd (SetLEDEnabled b s))"

text \<open>\<open>deliver\<close> applies the events that are due at the current time.\<close>

fun deliver :: "(int \<times> ext) list \<Rightarrow> led_state \<Rightarrow> led_state" where
  "deliver [] s = s\<lparr>events := []\<rparr>"
| "deliver ((t, e) # es) s =
     (if t \<le> now s then deliver es (apply_ext e s) else s\<lparr>events := (t, e) # es\<rparr>)"

text \<open>
  \<^verbatim>\<open>select { case <-stop: ... case <-time.After(d): ... }\<close>. The result is \<open>True\<close>
  when the stop branch is taken. A value already buffered is taken at once. Otherwise
  the goroutine sleeps: events before the deadline happen one by one, and the first that
  makes a value available on \<open>stop\<close> wakes the goroutine at that time; with none, the
  timer fires at the deadline, and the events due by then have happened before the
  goroutine reads anything else. (When both branches are ready Go chooses at random; the
  model takes the stop branch for a value that is there before the timer fires, and the
  timer branch for one sent at the very instant of the deadline.)
\<close>

fun await :: "nat \<Rightarrow> int \<Rightarrow> (int \<times> ext) list \<Rightarrow> led_state \<Rightarrow> bool \<times> led_state" where
  "await stop deadline [] s = (False, s\<lparr>now := max (now s) deadline, events := []\<rparr>)"
| "await stop deadline ((t, e) # es) s =
     (if t < deadline then
        (let s1 = apply_ext e (s\<lparr>now := max (now s) t, events := es\<rparr>)
         in if ready stop s1 then (True, recv stop s1) else await stop deadline es s1)
      else (False, deliver ((t, e) # es) (s\<lparr>now := max (now s) deadline\<rparr>)))"

definition select_stop_after :: "nat \<Rightarrow> int \<Rightarrow> led_state \<Rightarrow> bool \<times> led_state" where
  "select_stop_after stop d s =
     (let s0 = s\<lparr>timers := timers s @ [d]\<rparr>
      in if ready stop s0 then (True, recv stop s0)
         else await stop (now s0 + d) (events s0) s0)"

subsection \<open>FadeColor\<close>

text \<open>
  The step count and the step duration (the first lines of \<^verbatim>\<open>FadeColor\<close>); Go's
  integer division truncates toward zero, which is \<open>sdiv\<close>.
\<close>

definition fade_steps :: "int \<Rightarrow> int" where
  "fade_steps duration =
     (if duration sdiv 50 > 20 * ms
      then (let steps = duration sdiv (20 * ms) in if steps < 10 then 10 else steps)
      else 50)"

definition fade_stepDuration :: "int \<Rightarrow> int" where
  "fade_stepDuration duration =
     (if duration sdiv 50 > 20 * ms then duration sdiv fade_steps duration
      else duration sdiv 50)"

text \<open>
  The inner loop of a step: the wait, cut into sleeps of at most 10 ms. The result is
  \<open>True\<close> when the fade has to return (a stop signal was received or the flag was found
  reset; \<^verbatim>\<open>setColor(ColorOff)\<close> has been called then).
\<close>

function fade_sleep :: "nat \<Rightarrow> int \<Rightarrow> led_state \<Rightarrow> bool \<times> led_state" where
  "fade_sleep stop remainingTime s =
     (if remainingTime > 0 then
        (let sleepTime = (if remainingTime > 10 * ms then 10 * ms else remainingTime)
         in case select_stop_after stop sleepTime s of
              (stopped, s1) \<Rightarrow>
                if stopped then (True, snd (setColor ColorOff s1))
                else if \<not> effectActive s1 then (True, snd (setColor ColorOff s1))
                else fade_sleep stop (remainingTime - sleepTime) s1)
      else (False, s))"
  by pat_completeness auto
termination
  by (relation "measure (\<lambda>(stop, remainingTime, s). nat remainingTime)")
     (auto simp: ms_def)

text \<open>
  The intermediate color is computed in floating point in the source
  (\<^verbatim>\<open>int(float64(from.Red) + progress*float64(to.Red-from.Red))\<close> with
  \<^verbatim>\<open>progress = float64(step)/float64(steps)\<close>). The model takes this interpolation as
  the parameter \<open>mix\<close> (arguments: from, to, step, steps); nothing proved below depends
  on its values.
\<close>

definition blend :: "(int \<Rightarrow> int \<Rightarrow> int \<Rightarrow> int \<Rightarrow> int) \<Rightarrow> Color \<Rightarrow> Color \<Rightarrow> int \<Rightarrow> int \<Rightarrow> Color" where
  "blend mix from to step steps =
     \<lparr>Red = mix (Red from) (Red to) step steps,
      Green = mix (Green from) (Green to) step steps,
      Blue = mix (Blue from) (Blue to) step steps\<rparr>"

function fade_loop ::
  "(int \<Rightarrow> int \<Rightarrow> int \<Rightarrow> int \<Rightarrow> int) \<Rightarrow> Color \<Rightarrow> Color \<Rightarrow> int \<Rightarrow> int \<Rightarrow> nat \<Rightarrow> int \<Rightarrow> led_state
     \<Rightarrow> error option \<times> led_state" where
  "fade_loop mix from to steps stepDuration stop step s =
     (if step \<le> steps then
        if ready stop s then (None, snd (setColor ColorOff (recv stop s)))
        else if \<not> effectActive s then (None, snd (setColor ColorOff s))
        else
          case setColor (blend mix from to step steps) s of
            (Some err, s1) \<Rightarrow> (Some err, snd (setColor ColorOff s1))
          | (None, s1) \<Rightarrow>
              (case fade_sleep stop stepDuration s1 of
                 (return, s2) \<Rightarrow>
                   if return then (None, s2)
                   else fade_loop mix from to steps stepDuration stop (step + 1) s2)
      else (None, s))"
  by pat_completeness auto
termination
  by (relation "measure (\<lambda>(mix, from, to, steps, stepDuration, stop, step, s). nat (steps + 1 - step))")
     auto

definition FadeColor ::
  "(int \<Rightarrow> int \<Rightarrow> int \<Rightarrow> int \<Rightarrow> int) \<Rightarrow> Color \<Rightarrow> Color \<Rightarrow> int \<Rightarrow> nat \<Rightarrow> led_state
     \<Rightarrow> error option \<times> led_state" where
  "FadeColor mix from to duration stop s =
     fade_loop mix from to (fade_steps duration) (fade_stepDuration duration) stop 0 s"

subsection \<open>PulseColor and BlinkColor\<close>

text \<open>
  Both loops run forever when the count is 0 and nothing stops them, so they are
  partial functions: \<open>None\<close> is a run that never returns.
\<close>

partial_function (option) pulse_loop ::
  "(int \<Rightarrow> int \<Rightarrow> int \<Rightarrow> int \<Rightarrow> int) \<Rightarrow> Color \<Rightarrow> int \<Rightarrow> int \<Rightarrow> nat \<Rightarrow> int \<Rightarrow> led_state
     \<Rightarrow> (error option \<times> led_state) option" where
  "pulse_loop mix color pulseCount halfDuration stop i s =
     (if pulseCount = 0 \<or> i < pulseCount then
        if ready stop s then Some (None, snd (setColor ColorOff (recv stop s)))
        else if \<not> effectActive s then Some (None, snd (setColor ColorOff s))
        else
          case FadeColor mix ColorOff color halfDuration stop s of
            (Some err, s1) \<Rightarrow> Some (Some err, snd (setColor ColorOff s1))
          | (None, s1) \<Rightarrow>
              if ready stop s1 then Some (None, snd (setColor ColorOff (recv stop s1)))
              else if \<not> effectActive s1 then Some (None, snd (setColor ColorOff s1))
              else
                (case FadeColor mix color ColorOff halfDuration stop s1 of
                   (Some err, s2) \<Rightarrow> Some (Some err, snd (setColor ColorOff s2))
                 | (None, s2) \<Rightarrow>
                     if \<not> effectActive s2 then Some (None, snd (setColor ColorOff s2))
                     else pulse_loop mix color pulseCount halfDuration stop (i + 1) s2)
      else Some (None, s))"

definition PulseColor ::
  "(int \<Rightarrow> int \<Rightarrow> int \<Rightarrow> int \<Rightarrow> int) \<Rightarrow> Color \<Rightarrow> int \<Rightarrow> int \<Rightarrow> nat \<Rightarrow> led_state
     \<Rightarrow> (error option \<times> led_state) option" where
  "PulseColor mix color pulseCount pulseDuration stop s =
     pulse_loop mix color pulseCount (pulseDuration sdiv 2) stop 0 s"

text \<open>\<^verbatim>\<open>BlinkColor\<close> drops the result of every \<^verbatim>\<open>setColor\<close> call.\<close>

partial_function (option) blink_loop ::
  "Color \<Rightarrow> int \<Rightarrow> int \<Rightarrow> int \<Rightarrow> nat \<Rightarrow> int \<Rightarrow> led_state
     \<Rightarrow> (error option \<times> led_state) option" where
  "blink_loop color blinkCount onDuration offDuration stop i s =
     (if blinkCount = 0 \<or> i < blinkCount then
        if ready stop s then Some (None, snd (setColor ColorOff (recv stop s)))
        else if \<not> effectActive s then Some (None, snd (setColor ColorOff s))
        else
          case select_stop_after stop onDuration (snd (setColor color s)) of
            (stopped, s2) \<Rightarrow>
              if stopped then Some (None, snd (setColor ColorOff s2))
              else if \<not> effectActive s2 then Some (None, snd (setColor ColorOff s2))
              else
                (case select_stop_after stop offDuration (snd (setColor ColorOff s2)) of
                   (stopped, s4) \<Rightarrow>
                     if stopped then Some (None, snd (setColor ColorOff s4))
                     else if \<not> effectActive s4 then Some (None, snd (setColor ColorOff s4))
                     else blink_loop color blinkCount onDuration offDuration stop (i + 1) s4)
      else Some (None, s))"


declare pulse_loop.simps [code]
declare blink_loop.simps [code]


subsection \<open>Sample inputs\<close>

text \<open>
  For runs on concrete inputs: an interpolation in exact integer arithmetic, standing in
  for the floating-point one, and a state with an effect marked active and a second
  channel (number 1, capacity 5, empty) to serve as the effect's local stop channel.
\<close>

definition lerp :: "int \<Rightarrow> int \<Rightarrow> int \<Rightarrow> int \<Rightarrow> int" where
  "lerp a b step steps = a + (step * (b - a)) sdiv steps"

definition run_state :: led_state where
  "run_state = init_state\<lparr>effectActive := True, chans := [(5, 0), (5, 0)]\<rparr>"

section \<open>Properties of the channel sink\<close>

lemmas effect_consts =
  EFFECT_NONE_def EFFECT_BOOTUP_def EFFECT_NOTIFICATION_def EFFECT_CALL_def
  EFFECT_CHARGING_LOW_def EFFECT_CHARGING_HIGH_def EFFECT_CHARGING_COMPLETE_def
  EFFECT_WIFI_CONNECTING_def EFFECT_WIFI_CONNECTED_def EFFECT_WIFI_FAILED_def
  EFFECT_BLUETOOTH_CONNECTING_def EFFECT_BLUETOOTH_CONNECTED_def EFFECT_BLUETOOTH_FAILED_def
  EFFECT_CAMERA_FOCUS_def EFFECT_CAMERA_CAPTURE_def EFFECT_CAMERA_SAVE_def
  EFFECT_PARTY_def EFFECT_MUSIC_def

lemmas sched_defs =
  StartEffect_def StopCurrentEffect_def SetLEDEnabled_def runTimedEffect_enter_def
  runTimedEffect_done_def IsLEDEnabled_def IsEffectActive_def GetCurrentEffect_def
  make_chan_def try_send_def has_room_def sleep_def dispatch_def effect_consts
  setColor_def setRed_def setGreen_def setBlue_def WriteFile_def store_def clamp255_def
  ColorOff_def SetRGB_def SetRed_def SetGreen_def SetBlue_def init_state_def ms_def Let_def

lemma WriteFile_log: "write_log (snd (WriteFile p v s)) = write_log s @ [(p, v)]"
  by (cases p) (simp_all add: WriteFile_def store_def Let_def split: list.split)

lemma setColor_frame:
  "ledEnabled (snd (setColor c s)) = ledEnabled s"
  "effectActive (snd (setColor c s)) = effectActive s"
  "currentEffectType (snd (setColor c s)) = currentEffectType s"
  "stopChan (snd (setColor c s)) = stopChan s"
  "chans (snd (setColor c s)) = chans s"
  "spawned (snd (setColor c s)) = spawned s"
  "now (snd (setColor c s)) = now s"
  "timers (snd (setColor c s)) = timers s"
  "events (snd (setColor c s)) = events s"
  by (simp_all add: setColor_def setRed_def setGreen_def setBlue_def WriteFile_def store_def
        IsLEDEnabled_def Let_def split: list.split prod.split option.split)

text \<open>
  Claim C10. With the master enable off, \<open>setColor\<close> returns nil at once: the color is
  not validated and no channel is written, whatever the color is (in range or not).
\<close>

theorem setColor_disabled_noop:
  "\<not> ledEnabled s \<Longrightarrow> setColor color s = (None, s)"
  by (simp add: setColor_def IsLEDEnabled_def)

theorem setColor_disabled_noop_witness:
  "\<not> ledEnabled (init_state\<lparr>ledEnabled := False\<rparr>) \<and>
   setColor \<lparr>Red = -5, Green = 300, Blue = 128\<rparr> (init_state\<lparr>ledEnabled := False\<rparr>)
     = (None, init_state\<lparr>ledEnabled := False\<rparr>)"
  using setColor_disabled_noop [of "init_state\<lparr>ledEnabled := False\<rparr>"
      "\<lparr>Red = -5, Green = 300, Blue = 128\<rparr>"]
  by (simp add: init_state_def)

text \<open>
  Claim C2 says that \<open>setColor(-5, 300, 128)\<close> writes the channels as \<open>(0, 255, 128)\<close>.
  It does not: from the initial (enabled) state \<^verbatim>\<open>SetRGB(-5, 300, 128)\<close> returns the
  range error and writes no channel, while \<^verbatim>\<open>SetRGB(0, 255, 128)\<close> writes three.
\<close>

theorem SetRGB_no_clamp_counterexample:
  "fst (SetRGB (-5) 300 128 init_state) = Some ColorRange \<and>
   write_log (snd (SetRGB (-5) 300 128 init_state)) = [] \<and>
   write_log (snd (SetRGB 0 255 128 init_state)) =
     [(RedLEDPath, 0), (GreenLEDPath, 255), (BlueLEDPath, 128)]"
  by (simp add: sched_defs)

text \<open>
  Claim C2, amended. While enabled, \<open>setColor\<close> does not clamp: a color with a channel
  outside 0..255 is rejected with the range error and no channel is written. Clamping
  to 0..255 is what the per-channel setters \<open>setRed\<close>, \<open>setGreen\<close>, \<open>setBlue\<close> do
  before they write.
\<close>

theorem setColor_rejects_setters_clamp:
  assumes "ledEnabled s"
  shows "((Red c < 0 \<or> 255 < Red c \<or> Green c < 0 \<or> 255 < Green c \<or> Blue c < 0 \<or> 255 < Blue c)
            \<longrightarrow> setColor c s = (Some ColorRange, s)) \<and>
         write_log (snd (setRed v s)) = write_log s @ [(RedLEDPath, max 0 (min 255 v))] \<and>
         write_log (snd (setGreen v s)) = write_log s @ [(GreenLEDPath, max 0 (min 255 v))] \<and>
         write_log (snd (setBlue v s)) = write_log s @ [(BlueLEDPath, max 0 (min 255 v))]"
  using assms
  by (auto simp: setColor_def IsLEDEnabled_def setRed_def setGreen_def setBlue_def
        WriteFile_log clamp255_def Let_def)

theorem setColor_rejects_setters_clamp_witness:
  "ledEnabled init_state \<and>
   setColor \<lparr>Red = -5, Green = 300, Blue = 128\<rparr> init_state = (Some ColorRange, init_state) \<and>
   write_log (snd (setRed (-5) init_state)) = [(RedLEDPath, 0)] \<and>
   write_log (snd (setGreen 300 init_state)) = [(GreenLEDPath, 255)] \<and>
   write_log (snd (setBlue 128 init_state)) = [(BlueLEDPath, 128)]"
  using setColor_rejects_setters_clamp [of init_state "\<lparr>Red = -5, Green = 300, Blue = 128\<rparr>" "-5"]
        setColor_rejects_setters_clamp [of init_state "\<lparr>Red = -5, Green = 300, Blue = 128\<rparr>" 300]
        setColor_rejects_setters_clamp [of init_state "\<lparr>Red = -5, Green = 300, Blue = 128\<rparr>" 128]
  by (simp add: init_state_def)

section \<open>Properties of the scheduler\<close>

text \<open>
  Claim C8. \<open>StopCurrentEffect\<close> with no effect active changes nothing that can be
  observed: \<open>IsEffectActive\<close>, \<open>GetCurrentEffect\<close>, the enable flag, the three
  brightness files, the log of writes, and the stop channel with its contents stay as
  they are (no signal is sent); calling it again changes nothing either. The function is
  total and returns no error. (The variable \<open>currentEffectType\<close> is reset, which
  \<open>GetCurrentEffect\<close> does not show while no effect is active.)
\<close>

theorem StopCurrentEffect_idle_noop:
  "\<not> effectActive s \<Longrightarrow>
     IsEffectActive (StopCurrentEffect s) = IsEffectActive s \<and>
     GetCurrentEffect (StopCurrentEffect s) = GetCurrentEffect s \<and>
     IsLEDEnabled (StopCurrentEffect s) = IsLEDEnabled s \<and>
     red_led (StopCurrentEffect s) = red_led s \<and>
     green_led (StopCurrentEffect s) = green_led s \<and>
     blue_led (StopCurrentEffect s) = blue_led s \<and>
     write_log (StopCurrentEffect s) = write_log s \<and>
     stopChan (StopCurrentEffect s) = stopChan s \<and>
     chans (StopCurrentEffect s) = chans s \<and>
     StopCurrentEffect (StopCurrentEffect s) = StopCurrentEffect s"
  by (simp add: StopCurrentEffect_def IsEffectActive_def GetCurrentEffect_def IsLEDEnabled_def)

theorem StopCurrentEffect_idle_noop_witness:
  "\<not> effectActive (snd (StartEffect 99 init_state)) \<and>
   currentEffectType (snd (StartEffect 99 init_state)) = 99 \<and>
   IsEffectActive (StopCurrentEffect (snd (StartEffect 99 init_state))) = False \<and>
   GetCurrentEffect (StopCurrentEffect (snd (StartEffect 99 init_state))) = EFFECT_NONE \<and>
   GetCurrentEffect (snd (StartEffect 99 init_state)) = EFFECT_NONE \<and>
   chans (StopCurrentEffect (snd (StartEffect 99 init_state))) = [(5, 0), (1, 0)]"
  using StopCurrentEffect_idle_noop [of "snd (StartEffect 99 init_state)"]
  by (simp add: sched_defs)

lemma WriteFile_frame:
  "ledEnabled (snd (WriteFile p v s)) = ledEnabled s"
  "effectActive (snd (WriteFile p v s)) = effectActive s"
  "currentEffectType (snd (WriteFile p v s)) = currentEffectType s"
  "stopChan (snd (WriteFile p v s)) = stopChan s"
  "chans (snd (WriteFile p v s)) = chans s"
  "spawned (snd (WriteFile p v s)) = spawned s"
  "now (snd (WriteFile p v s)) = now s"
  "timers (snd (WriteFile p v s)) = timers s"
  "events (snd (WriteFile p v s)) = events s"
  by (cases p; simp add: WriteFile_def store_def Let_def split: list.split)+

lemma WriteFile_no_fault:
  "io_faults s = [] \<Longrightarrow> WriteFile p v s = (None, store p v (s\<lparr>write_log := write_log s @ [(p, v)]\<rparr>))"
  by (simp add: WriteFile_def Let_def)

lemma SetLEDEnabled_off:
  "ledEnabled s \<Longrightarrow> snd (SetLEDEnabled False s) =
     snd (WriteFile BlueLEDPath 0 (snd (WriteFile GreenLEDPath 0
       (snd (WriteFile RedLEDPath 0 (s\<lparr>ledEnabled := False\<rparr>))))))"
  by (simp add: SetLEDEnabled_def Let_def)

lemma SetLEDEnabled_off_files:
  assumes "ledEnabled s" and "io_faults s = []"
  shows "red_led (snd (SetLEDEnabled False s)) = 0 \<and> green_led (snd (SetLEDEnabled False s)) = 0 \<and>
         blue_led (snd (SetLEDEnabled False s)) = 0"
  using assms by (simp add: SetLEDEnabled_off WriteFile_no_fault store_def)

text \<open>
  Claim C4. \<open>SetLEDEnabled(false)\<close> on an enabled controller writes 0 to the three
  files at once, past the enable gate (with no write failure all three read 0 afterwards),
  and does not cancel the running effect: nothing is sent on the stop channel,
  \<open>IsEffectActive\<close> and \<open>GetCurrentEffect\<close> answer as before, and from then on
  \<open>setColor\<close> and the channel setters write nothing, until \<open>SetLEDEnabled(true)\<close> lifts
  the gate (which itself writes nothing).
\<close>

theorem SetLEDEnabled_false_mutes:
  assumes "ledEnabled s" and "s' = snd (SetLEDEnabled False s)"
  shows "write_log s' = write_log s @ [(RedLEDPath, 0), (GreenLEDPath, 0), (BlueLEDPath, 0)] \<and>
         (io_faults s = [] \<longrightarrow> red_led s' = 0 \<and> green_led s' = 0 \<and> blue_led s' = 0) \<and>
         \<not> IsLEDEnabled s' \<and>
         IsEffectActive s' = IsEffectActive s \<and>
         GetCurrentEffect s' = GetCurrentEffect s \<and>
         stopChan s' = stopChan s \<and> chans s' = chans s \<and>
         (\<forall>c. setColor c s' = (None, s')) \<and>
         (\<forall>v. setRed v s' = (None, s') \<and> setGreen v s' = (None, s') \<and> setBlue v s' = (None, s')) \<and>
         IsLEDEnabled (snd (SetLEDEnabled True s')) \<and>
         write_log (snd (SetLEDEnabled True s')) = write_log s'"
proof -
  have off: "\<not> ledEnabled s'"
    using assms by (simp add: SetLEDEnabled_off WriteFile_frame)
  have log: "write_log s' = write_log s @ [(RedLEDPath, 0), (GreenLEDPath, 0), (BlueLEDPath, 0)]"
    using assms by (simp add: SetLEDEnabled_off WriteFile_log)
  have files: "io_faults s = [] \<longrightarrow> red_led s' = 0 \<and> green_led s' = 0 \<and> blue_led s' = 0"
    using assms SetLEDEnabled_off_files [of s] by simp
  have same: "effectActive s' = effectActive s" "currentEffectType s' = currentEffectType s"
    "stopChan s' = stopChan s" "chans s' = chans s"
    using assms by (simp_all add: SetLEDEnabled_off WriteFile_frame)
  have gate: "\<forall>c. setColor c s' = (None, s')"
    "\<forall>v. setRed v s' = (None, s') \<and> setGreen v s' = (None, s') \<and> setBlue v s' = (None, s')"
    using off by (simp_all add: setColor_def IsLEDEnabled_def setRed_def setGreen_def setBlue_def)
  have on: "IsLEDEnabled (snd (SetLEDEnabled True s'))"
    "write_log (snd (SetLEDEnabled True s')) = write_log s'"
    by (simp_all add: SetLEDEnabled_def IsLEDEnabled_def Let_def)
  show ?thesis
    using off log files same gate on
    by (simp add: IsLEDEnabled_def IsEffectActive_def GetCurrentEffect_def)
qed

theorem SetLEDEnabled_false_mutes_witness:
  "ledEnabled (snd (StartEffect EFFECT_NOTIFICATION init_state)) \<and>
   io_faults (snd (StartEffect EFFECT_NOTIFICATION init_state)) = [] \<and>
   IsEffectActive (snd (StartEffect EFFECT_NOTIFICATION init_state)) \<and>
   IsEffectActive (snd (SetLEDEnabled False (snd (StartEffect EFFECT_NOTIFICATION init_state)))) \<and>
   GetCurrentEffect (snd (SetLEDEnabled False (snd (StartEffect EFFECT_NOTIFICATION init_state))))
     = EFFECT_NOTIFICATION \<and>
   write_log (snd (SetLEDEnabled False (snd (StartEffect EFFECT_NOTIFICATION init_state))))
     = [(RedLEDPath, 0), (GreenLEDPath, 0), (BlueLEDPath, 0)] \<and>
   chans (snd (SetLEDEnabled False (snd (StartEffect EFFECT_NOTIFICATION init_state)))) = [(5, 0), (1, 0)] \<and>
   write_log (snd (setColor \<lparr>Red = 255, Green = 0, Blue = 0\<rparr>
      (snd (SetLEDEnabled False (snd (StartEffect EFFECT_NOTIFICATION init_state))))))
     = [(RedLEDPath, 0), (GreenLEDPath, 0), (BlueLEDPath, 0)]"
  using SetLEDEnabled_false_mutes [of "snd (StartEffect EFFECT_NOTIFICATION init_state)"
      "snd (SetLEDEnabled False (snd (StartEffect EFFECT_NOTIFICATION init_state)))"]
  by (simp add: sched_defs)

lemma dispatch_Some_iff: "(dispatch k \<noteq> None) = (1 \<le> k \<and> k \<le> 16)"
  unfolding dispatch_def effect_consts by (simp; presburger)

text \<open>
  What \<open>StartEffect\<close> returns: true exactly when the controller is enabled and the
  effect type is one of the sixteen cases of its switch (1 to 16).
\<close>

lemma StartEffect_result:
  "fst (StartEffect k s) = (ledEnabled s \<and> 1 \<le> k \<and> k \<le> 16)"
  using dispatch_Some_iff [of k]
  by (auto simp: StartEffect_def IsLEDEnabled_def make_chan_def Let_def split: option.splits)

lemma StartEffect_disabled: "\<not> ledEnabled s \<Longrightarrow> StartEffect k s = (False, s)"
  by (simp add: StartEffect_def IsLEDEnabled_def)

text \<open>
  Claim C7 (every recognized kind starts while enabled). \<open>EFFECT_MUSIC\<close> is a declared
  effect type, and the catalog function \<open>MusicEffect\<close> runs under it; the switch of
  \<open>StartEffect\<close> has no case for it. From the initial, enabled state
  \<open>StartEffect(EFFECT_MUSIC)\<close> returns false, launches nothing and leaves
  \<open>effectActive\<close> false.
\<close>

theorem StartEffect_music_rejected:
  "effect_code MusicEffect = EFFECT_MUSIC \<and> IsLEDEnabled init_state \<and>
   fst (StartEffect EFFECT_MUSIC init_state) = False \<and>
   spawned (snd (StartEffect EFFECT_MUSIC init_state)) = [] \<and>
   effectActive (snd (StartEffect EFFECT_MUSIC init_state)) = False"
  by (simp add: sched_defs)

text \<open>
  Claim C9 says that \<open>StartEffect\<close> with an unrecognized kind, while an effect runs,
  sends a stop signal, replaces the stop channel and leaves \<open>effectActive\<close> false.
  Two runs from the initial state where it does not: when the stop channel's buffer is
  full (after \<open>StartEffect(EFFECT_NOTIFICATION)\<close> and \<open>StopCurrentEffect\<close>) nothing is
  sent on it; and when the master enable is off, \<open>StartEffect(99)\<close> returns false and
  leaves the whole state as it is, the effect still active.
\<close>

theorem StartEffect_unrecognized_counterexample:
  "ledEnabled (snd (StartEffect EFFECT_NOTIFICATION init_state)) \<and>
   effectActive (StopCurrentEffect (snd (StartEffect EFFECT_NOTIFICATION init_state))) \<and>
   chans (StopCurrentEffect (snd (StartEffect EFFECT_NOTIFICATION init_state))) = [(5, 0), (1, 1)] \<and>
   fst (StartEffect 99 (StopCurrentEffect (snd (StartEffect EFFECT_NOTIFICATION init_state)))) = False \<and>
   chans (snd (StartEffect 99 (StopCurrentEffect (snd (StartEffect EFFECT_NOTIFICATION init_state)))))
     = [(5, 0), (1, 1), (1, 0)] \<and>
   effectActive (snd (SetLEDEnabled False (snd (StartEffect EFFECT_NOTIFICATION init_state)))) \<and>
   StartEffect 99 (snd (SetLEDEnabled False (snd (StartEffect EFFECT_NOTIFICATION init_state))))
     = (False, snd (SetLEDEnabled False (snd (StartEffect EFFECT_NOTIFICATION init_state))))"
  by (simp add: sched_defs)

text \<open>
  Claim C9, amended. While the master enable is on and an effect is active,
  \<open>StartEffect\<close> with a kind outside its switch returns false after a non-blocking send
  on the stop channel (the signal is buffered when the channel has room, dropped when it
  is full), after replacing the stop channel by a fresh one of capacity 1, and with
  \<open>effectActive\<close> false; \<open>currentEffectType\<close> holds the rejected kind and nothing is
  launched.
\<close>

theorem StartEffect_unrecognized_tears_down:
  assumes "ledEnabled s" and "effectActive s" and "dispatch k = None"
    and "s' = snd (StartEffect k s)"
  shows "fst (StartEffect k s) = False \<and>
         effectActive s' = False \<and> currentEffectType s' = k \<and>
         stopChan s' = length (chans s) \<and>
         chans s' = chans (try_send (stopChan s) s) @ [(1, 0)] \<and>
         (has_room (stopChan s) s \<longrightarrow>
            chans s' ! stopChan s = (fst (chans s ! stopChan s), Suc (snd (chans s ! stopChan s)))) \<and>
         (\<not> has_room (stopChan s) s \<longrightarrow> chans s' = chans s @ [(1, 0)]) \<and>
         spawned s' = spawned s"
  using assms
  by (auto simp: StartEffect_def IsLEDEnabled_def make_chan_def sleep_def try_send_def has_room_def
        Let_def nth_append)

theorem StartEffect_unrecognized_tears_down_witness:
  "ledEnabled (snd (StartEffect EFFECT_NOTIFICATION init_state)) \<and>
   effectActive (snd (StartEffect EFFECT_NOTIFICATION init_state)) \<and>
   dispatch 99 = None \<and>
   has_room (stopChan (snd (StartEffect EFFECT_NOTIFICATION init_state)))
     (snd (StartEffect EFFECT_NOTIFICATION init_state)) \<and>
   stopChan (snd (StartEffect EFFECT_NOTIFICATION init_state)) = 1 \<and>
   chans (snd (StartEffect EFFECT_NOTIFICATION init_state)) = [(5, 0), (1, 0)] \<and>
   fst (StartEffect 99 (snd (StartEffect EFFECT_NOTIFICATION init_state))) = False \<and>
   effectActive (snd (StartEffect 99 (snd (StartEffect EFFECT_NOTIFICATION init_state)))) = False \<and>
   stopChan (snd (StartEffect 99 (snd (StartEffect EFFECT_NOTIFICATION init_state)))) = 2 \<and>
   chans (snd (StartEffect 99 (snd (StartEffect EFFECT_NOTIFICATION init_state))))
     = [(5, 0), (1, 1), (1, 0)]"
  using StartEffect_unrecognized_tears_down [of "snd (StartEffect EFFECT_NOTIFICATION init_state)" 99
      "snd (StartEffect 99 (snd (StartEffect EFFECT_NOTIFICATION init_state)))"]
  by (simp add: sched_defs)

text \<open>
  Claim C1 says that the completion of a task whose stop channel is no longer the one on
  record is discarded. It is not: \<open>StartEffect(EFFECT_NOTIFICATION)\<close> installs channel
  1, \<open>StartEffect(EFFECT_CALL)\<close> then installs channel 2 with \<open>effectActive\<close> true and
  type \<open>EFFECT_CALL\<close>; when a task then runs its closing section, \<open>effectActive\<close> is
  false and the type is \<open>EFFECT_NONE\<close>.
\<close>

theorem stale_completion_counterexample:
  "stopChan (snd (StartEffect EFFECT_NOTIFICATION init_state)) = 1 \<and>
   stopChan (runTimedEffect_enter EFFECT_CALL (snd (StartEffect EFFECT_CALL
     (runTimedEffect_enter EFFECT_NOTIFICATION (snd (StartEffect EFFECT_NOTIFICATION init_state)))))) = 2 \<and>
   effectActive (runTimedEffect_enter EFFECT_CALL (snd (StartEffect EFFECT_CALL
     (runTimedEffect_enter EFFECT_NOTIFICATION (snd (StartEffect EFFECT_NOTIFICATION init_state)))))) \<and>
   currentEffectType (runTimedEffect_enter EFFECT_CALL (snd (StartEffect EFFECT_CALL
     (runTimedEffect_enter EFFECT_NOTIFICATION (snd (StartEffect EFFECT_NOTIFICATION init_state)))))) = EFFECT_CALL \<and>
   \<not> effectActive (runTimedEffect_done (runTimedEffect_enter EFFECT_CALL (snd (StartEffect EFFECT_CALL
     (runTimedEffect_enter EFFECT_NOTIFICATION (snd (StartEffect EFFECT_NOTIFICATION init_state))))))) \<and>
   currentEffectType (runTimedEffect_done (runTimedEffect_enter EFFECT_CALL (snd (StartEffect EFFECT_CALL
     (runTimedEffect_enter EFFECT_NOTIFICATION (snd (StartEffect EFFECT_NOTIFICATION init_state))))))) = EFFECT_NONE"
  by (simp add: sched_defs)

text \<open>
  Claim C1, amended. The closing section of an effect task resets the scheduler to idle
  unconditionally: whatever the state and whatever stop channel is on record,
  \<open>effectActive\<close> is false and \<open>currentEffectType\<close> is \<open>EFFECT_NONE\<close> afterwards (so
  \<open>IsEffectActive\<close> and \<open>GetCurrentEffect\<close> report idle), and the stop channel on
  record is left as it is. No token is compared.
\<close>

theorem completion_unconditional:
  "effectActive (runTimedEffect_done s) = False \<and>
   currentEffectType (runTimedEffect_done s) = EFFECT_NONE \<and>
   IsEffectActive (runTimedEffect_done s) = False \<and>
   GetCurrentEffect (runTimedEffect_done s) = EFFECT_NONE \<and>
   stopChan (runTimedEffect_done s) = stopChan s"
  by (simp add: runTimedEffect_done_def sleep_def Let_def setColor_frame IsEffectActive_def GetCurrentEffect_def)

section \<open>Properties of the timed primitives\<close>








lemma recv_frame:
  "ledEnabled (recv c s) = ledEnabled s"
  "effectActive (recv c s) = effectActive s"
  "now (recv c s) = now s"
  "timers (recv c s) = timers s"
  "events (recv c s) = events s"
  "write_log (recv c s) = write_log s"
  "io_faults (recv c s) = io_faults s"
  by (simp_all add: recv_def)

lemma try_send_frame:
  "ledEnabled (try_send c s) = ledEnabled s"
  "effectActive (try_send c s) = effectActive s"
  "now (try_send c s) = now s"
  "timers (try_send c s) = timers s"
  "events (try_send c s) = events s"
  "write_log (try_send c s) = write_log s"
  "io_faults (try_send c s) = io_faults s"
  by (simp_all add: try_send_def)

lemma SetLEDEnabled_frame:
  "now (snd (SetLEDEnabled b s)) = now s"
  "timers (snd (SetLEDEnabled b s)) = timers s"
  "events (snd (SetLEDEnabled b s)) = events s"
  "chans (snd (SetLEDEnabled b s)) = chans s"
  "effectActive (snd (SetLEDEnabled b s)) = effectActive s"
  by (simp_all add: SetLEDEnabled_def Let_def WriteFile_frame)

lemma apply_ext_frame:
  "now (apply_ext e s) = now s"
  "timers (apply_ext e s) = timers s"
  "events (apply_ext e s) = events s"
  by (cases e; simp add: apply_ext_def try_send_frame SetLEDEnabled_frame)+

lemma deliver_frame:
  "now (deliver es s) = now s" "timers (deliver es s) = timers s"
  by (induction es s rule: deliver.induct) (simp_all add: apply_ext_frame)


lemma await_timers: "timers (snd (await stop deadline es s)) = timers s"
proof (induction es arbitrary: s)
  case Nil
  then show ?case by simp
next
  case (Cons x es)
  obtain t e where x: "x = (t, e)" by (cases x)
  show ?case
    by (simp add: x Let_def deliver_frame apply_ext_frame recv_frame Cons.IH)
qed


lemma select_stop_after_timers:
  "timers (snd (select_stop_after stop d s)) = timers s @ [d]"
  by (simp add: select_stop_after_def Let_def recv_frame await_timers)



lemmas run_defs =
  run_state_def init_state_def ColorRed_def ColorOff_def lerp_def blend_def
  FadeColor_def fade_steps_def fade_stepDuration_def ms_def
  setColor_def setRed_def setGreen_def setBlue_def WriteFile_def store_def clamp255_def
  IsLEDEnabled_def ready_def recv_def select_stop_after_def apply_ext_def try_send_def has_room_def
  SetLEDEnabled_def signed_divide_int_def Let_def

lemma fade_loop_write_error:
  assumes "step \<le> steps" and "\<not> ready stop s" and "effectActive s"
    and "setColor (blend mix from to step steps) s = (Some e, s1)"
  shows "fade_loop mix from to steps stepDuration stop step s = (Some e, snd (setColor ColorOff s1))"
  using assms by (subst fade_loop.simps) simp

lemma pulse_loop_first_fade_error:
  assumes "pulseCount = 0 \<or> i < pulseCount" and "\<not> ready stop s" and "effectActive s"
    and "FadeColor mix ColorOff color halfDuration stop s = (Some e, s1)"
  shows "pulse_loop mix color pulseCount halfDuration stop i s = Some (Some e, snd (setColor ColorOff s1))"
  using assms by (subst pulse_loop.simps) simp

lemma pulse_loop_second_fade_error:
  assumes "pulseCount = 0 \<or> i < pulseCount" and "\<not> ready stop s" and "effectActive s"
    and "FadeColor mix ColorOff color halfDuration stop s = (None, s1)"
    and "\<not> ready stop s1" and "effectActive s1"
    and "FadeColor mix color ColorOff halfDuration stop s1 = (Some e, s2)"
  shows "pulse_loop mix color pulseCount halfDuration stop i s = Some (Some e, snd (setColor ColorOff s2))"
  using assms by (subst pulse_loop.simps) simp

lemma blink_loop_no_error:
  assumes "blink_loop color blinkCount onDuration offDuration stop i s = Some y"
  shows "fst y = None"
proof (rule blink_loop.raw_induct
    [where P = "\<lambda>c n d1 d2 st j s0 y0. fst y0 = None", OF _ assms])
  fix f color blinkCount onDuration offDuration stop i s y
  assume ih: "\<And>c n d1 d2 st j s0 y0. f c n d1 d2 st j s0 = Some y0 \<Longrightarrow> fst y0 = None"
    and body: "(if blinkCount = 0 \<or> i < blinkCount then
        if ready stop s then Some (None, snd (setColor ColorOff (recv stop s)))
        else if \<not> effectActive s then Some (None, snd (setColor ColorOff s))
        else
          case select_stop_after stop onDuration (snd (setColor color s)) of
            (stopped, s2) \<Rightarrow>
              if stopped then Some (None, snd (setColor ColorOff s2))
              else if \<not> effectActive s2 then Some (None, snd (setColor ColorOff s2))
              else
                (case select_stop_after stop offDuration (snd (setColor ColorOff s2)) of
                   (stopped, s4) \<Rightarrow>
                     if stopped then Some (None, snd (setColor ColorOff s4))
                     else if \<not> effectActive s4 then Some (None, snd (setColor ColorOff s4))
                     else f color blinkCount onDuration offDuration stop (i + 1) s4)
      else Some (None, s)) = Some y"
  show "fst y = None"
    using body ih by (auto split: if_splits prod.splits)
qed

lemma setColor_error_iff:
  assumes en: "ledEnabled s" and rg: "in_range c"
  shows "(\<exists>p. fst (setColor c s) = Some (SetFailed p)) = (True \<in> set (take 3 (io_faults s)))"
proof -
  note defs = setColor_def IsLEDEnabled_def setRed_def setGreen_def setBlue_def WriteFile_def
    store_def Let_def
  have rg': "\<not> (Red c < 0 \<or> Red c > 255 \<or> Green c < 0 \<or> Green c > 255 \<or> Blue c < 0 \<or> Blue c > 255)"
    using rg by (auto simp: in_range_def)
  show ?thesis
  proof (cases "io_faults s")
    case Nil
    then show ?thesis using en rg' by (simp add: defs)
  next
    case (Cons f1 r1)
    show ?thesis
    proof (cases f1)
      case True
      then show ?thesis using en rg' Cons by (simp add: defs)
    next
      case False
      note f1 = False
      show ?thesis
      proof (cases r1)
        case Nil
        then show ?thesis using en rg' Cons f1 by (simp add: defs)
      next
        case (Cons f2 r2)
        note r1 = Cons
        show ?thesis
        proof (cases f2)
          case True
          then show ?thesis using en rg' \<open>io_faults s = f1 # r1\<close> f1 r1 by (simp add: defs)
        next
          case False
          note f2 = False
          show ?thesis
          proof (cases r2)
            case Nil
            then show ?thesis using en rg' \<open>io_faults s = f1 # r1\<close> f1 r1 f2 by (simp add: defs)
          next
            case (Cons f3 r3)
            then show ?thesis using en rg' \<open>io_faults s = f1 # r1\<close> f1 r1 f2
              by (cases f3) (simp_all add: defs)
          qed
        qed
      qed
    qed
  qed
qed

lemma fade_loop_step:
  assumes "step \<le> steps" and "\<not> ready stop s" and "effectActive s"
    and "setColor (blend mix c1 c2 step steps) s = (None, s1)"
    and "fade_sleep stop stepDuration s1 = (ret, s2)"
  shows "fade_loop mix c1 c2 steps stepDuration stop step s =
           (if ret then (None, s2) else fade_loop mix c1 c2 steps stepDuration stop (step + 1) s2)"
  using assms by (subst fade_loop.simps) simp

lemma fade_loop_cancelled:
  assumes "step \<le> steps"
  shows "ready stop s \<Longrightarrow>
           fade_loop mix c1 c2 steps stepDuration stop step s = (None, snd (setColor ColorOff (recv stop s)))"
    and "\<not> ready stop s \<Longrightarrow> \<not> effectActive s \<Longrightarrow>
           fade_loop mix c1 c2 steps stepDuration stop step s = (None, snd (setColor ColorOff s))"
  using assms by (subst fade_loop.simps, simp)+

lemma fade_loop_done:
  "\<not> step \<le> steps \<Longrightarrow> fade_loop mix c1 c2 steps stepDuration stop step s = (None, s)"
  by (subst fade_loop.simps) simp

lemma fade_loop_error_origin:
  "fade_loop mix c1 c2 steps stepDuration stop step s = (Some e, s') \<Longrightarrow>
     \<exists>k s0. step \<le> k \<and> k \<le> steps \<and> \<not> ready stop s0 \<and> effectActive s0 \<and>
        fst (setColor (blend mix c1 c2 k steps) s0) = Some e \<and>
        s' = snd (setColor ColorOff (snd (setColor (blend mix c1 c2 k steps) s0)))"
proof (induction "nat (steps + 1 - step)" arbitrary: step s rule: less_induct)
  case less
  note run = less.prems
  have le: "step \<le> steps"
    using run fade_loop_done [of step steps] by (cases "step \<le> steps") auto
  have nr: "\<not> ready stop s"
    using run fade_loop_cancelled(1) [OF le, of stop s] by (cases "ready stop s") auto
  have act: "effectActive s"
    using run fade_loop_cancelled(2) [OF le nr] by (cases "effectActive s") auto
  obtain r s1 where sc: "setColor (blend mix c1 c2 step steps) s = (r, s1)"
    by (cases "setColor (blend mix c1 c2 step steps) s")
  show ?case
  proof (cases r)
    case (Some err)
    have "fade_loop mix c1 c2 steps stepDuration stop step s = (Some err, snd (setColor ColorOff s1))"
      using fade_loop_write_error [OF le nr act] sc Some by simp
    with run have "e = err" "s' = snd (setColor ColorOff s1)" by simp_all
    then show ?thesis using le nr act sc Some by (intro exI [of _ step] exI [of _ s]) simp
  next
    case None
    obtain ret s2 where fs: "fade_sleep stop stepDuration s1 = (ret, s2)"
      by (cases "fade_sleep stop stepDuration s1")
    have eq: "fade_loop mix c1 c2 steps stepDuration stop step s =
           (if ret then (None, s2) else fade_loop mix c1 c2 steps stepDuration stop (step + 1) s2)"
      using fade_loop_step [OF le nr act _ fs] sc None by simp
    with run have nret: "\<not> ret" by (cases ret) auto
    with eq run have next_run:
      "fade_loop mix c1 c2 steps stepDuration stop (step + 1) s2 = (Some e, s')" by simp
    have "nat (steps + 1 - (step + 1)) < nat (steps + 1 - step)" using le by simp
    from less.hyps [OF this next_run]
    obtain k s0 where "step + 1 \<le> k" "k \<le> steps" "\<not> ready stop s0" "effectActive s0"
      "fst (setColor (blend mix c1 c2 k steps) s0) = Some e"
      "s' = snd (setColor ColorOff (snd (setColor (blend mix c1 c2 k steps) s0)))"
      by blast
    then show ?thesis by (intro exI [of _ k] exI [of _ s0]) simp
  qed
qed

lemma pulse_loop_cancelled:
  assumes "pulseCount = 0 \<or> i < pulseCount"
  shows "ready stop s \<Longrightarrow>
           pulse_loop mix color pulseCount halfDuration stop i s
             = Some (None, snd (setColor ColorOff (recv stop s)))"
    and "\<not> ready stop s \<Longrightarrow> \<not> effectActive s \<Longrightarrow>
           pulse_loop mix color pulseCount halfDuration stop i s
             = Some (None, snd (setColor ColorOff s))"
  using assms by (subst pulse_loop.simps, simp)+

lemma pulse_loop_error_origin:
  assumes "pulse_loop mix color pulseCount halfDuration stop i s = Some y"
  shows "fst y = None \<or>
         (\<exists>c1 c2 s0. FadeColor mix c1 c2 halfDuration stop s0 = (fst y, snd (FadeColor mix c1 c2 halfDuration stop s0)) \<and>
            snd y = snd (setColor ColorOff (snd (FadeColor mix c1 c2 halfDuration stop s0))))"
proof (rule pulse_loop.raw_induct
    [where P = "\<lambda>m c n h st j s0 y0. fst y0 = None \<or>
         (\<exists>c1 c2 s1. FadeColor m c1 c2 h st s1 = (fst y0, snd (FadeColor m c1 c2 h st s1)) \<and>
            snd y0 = snd (setColor ColorOff (snd (FadeColor m c1 c2 h st s1))))", OF _ assms])
  fix f mix color pulseCount halfDuration stop i s y
  assume ih: "\<And>m c n h st j s0 y0. f m c n h st j s0 = Some y0 \<Longrightarrow> fst y0 = None \<or>
         (\<exists>c1 c2 s1. FadeColor m c1 c2 h st s1 = (fst y0, snd (FadeColor m c1 c2 h st s1)) \<and>
            snd y0 = snd (setColor ColorOff (snd (FadeColor m c1 c2 h st s1))))"
    and body: "(if pulseCount = 0 \<or> i < pulseCount then
        if ready stop s then Some (None, snd (setColor ColorOff (recv stop s)))
        else if \<not> effectActive s then Some (None, snd (setColor ColorOff s))
        else
          case FadeColor mix ColorOff color halfDuration stop s of
            (Some err, s1) \<Rightarrow> Some (Some err, snd (setColor ColorOff s1))
          | (None, s1) \<Rightarrow>
              if ready stop s1 then Some (None, snd (setColor ColorOff (recv stop s1)))
              else if \<not> effectActive s1 then Some (None, snd (setColor ColorOff s1))
              else
                (case FadeColor mix color ColorOff halfDuration stop s1 of
                   (Some err, s2) \<Rightarrow> Some (Some err, snd (setColor ColorOff s2))
                 | (None, s2) \<Rightarrow>
                     if \<not> effectActive s2 then Some (None, snd (setColor ColorOff s2))
                     else f mix color pulseCount halfDuration stop (i + 1) s2)
      else Some (None, s)) = Some y"
  show "fst y = None \<or>
         (\<exists>c1 c2 s1. FadeColor mix c1 c2 halfDuration stop s1 = (fst y, snd (FadeColor mix c1 c2 halfDuration stop s1)) \<and>
            snd y = snd (setColor ColorOff (snd (FadeColor mix c1 c2 halfDuration stop s1))))"
  proof (cases "pulseCount = 0 \<or> i < pulseCount")
    case False
    with body show ?thesis by auto
  next
    case cond: True
    show ?thesis
    proof (cases "ready stop s \<or> \<not> effectActive s")
      case True
      with body cond show ?thesis by (auto split: if_splits)
    next
      case live: False
      obtain r1 s1 where f1: "FadeColor mix ColorOff color halfDuration stop s = (r1, s1)"
        by (cases "FadeColor mix ColorOff color halfDuration stop s")
      show ?thesis
      proof (cases r1)
        case (Some err)
        with body cond live f1 have "y = (Some err, snd (setColor ColorOff s1))" by auto
        then show ?thesis using f1 Some
          by (intro disjI2 exI [of _ ColorOff] exI [of _ color] exI [of _ s]) simp
      next
        case none1: None
        show ?thesis
        proof (cases "ready stop s1 \<or> \<not> effectActive s1")
          case True
          with body cond live f1 none1 show ?thesis by (auto split: if_splits)
        next
          case live1: False
          obtain r2 s2 where f2: "FadeColor mix color ColorOff halfDuration stop s1 = (r2, s2)"
            by (cases "FadeColor mix color ColorOff halfDuration stop s1")
          show ?thesis
          proof (cases r2)
            case (Some err)
            with body cond live f1 none1 live1 f2 have "y = (Some err, snd (setColor ColorOff s2))"
              by auto
            then show ?thesis using f2 Some
              by (intro disjI2 exI [of _ color] exI [of _ ColorOff] exI [of _ s1]) simp
          next
            case none2: None
            show ?thesis
            proof (cases "effectActive s2")
              case False
              with body cond live f1 none1 live1 f2 none2 show ?thesis by auto
            next
              case True
              with body cond live f1 none1 live1 f2 none2
              have "f mix color pulseCount halfDuration stop (i + 1) s2 = Some y" by auto
              then show ?thesis by (rule ih)
            qed
          qed
        qed
      qed
    qed
  qed
qed

text \<open>
  Claim C3 says that after a failed hardware write a timed primitive goes on with its
  remaining steps. \<open>FadeColor\<close> does not: a fade of 500 ms has 50 steps, and when its
  first write fails it returns the error at once; the log holds the failed write and the
  attempt to switch off, no timer was armed and the clock has not moved.
\<close>

theorem fade_write_failure_counterexample:
  "fade_steps (500 * ms) = 50 \<and>
   FadeColor lerp ColorOff ColorRed (500 * ms) 1 (run_state\<lparr>io_faults := [True]\<rparr>)
     = (Some (SetFailed RedLEDPath),
        run_state\<lparr>write_log := [(RedLEDPath, 0), (RedLEDPath, 0), (GreenLEDPath, 0), (BlueLEDPath, 0)]\<rparr>)"
  by (simp add: run_defs fade_loop.simps)

text \<open>
  Claim C3, amended. A hardware write failure during \<open>FadeColor\<close> or \<open>PulseColor\<close> is
  reported upward only when it hits the write of a fade step's color, and it then ends
  the primitive. The conjuncts, in order:
  \<^item> while enabled and for a color in range, \<open>setColor\<close> returns an error exactly when
    one of its channel writes (red, green, blue, in this order) fails;
  \<^item> at any step of a fade, an error of \<open>setColor\<close> makes the fade call
    \<open>setColor(ColorOff)\<close> and return that error at once, without the wait of the step
    and without the remaining steps;
  \<^item> a fade returns no other error: whenever it returns one, it is the error of the
    color write of a step that was neither stopped nor deactivated, and nothing but
    \<open>setColor(ColorOff)\<close> followed it;
  \<^item> a stop signal or a reset flag found at the start of a step makes the fade return
    nil, whatever becomes of the \<open>setColor(ColorOff)\<close> it issues (its result is dropped);
  \<^item> in any cycle of a pulse, an error of the first or of the second fade makes the
    pulse call \<open>setColor(ColorOff)\<close> and return that error without further cycles;
  \<^item> a pulse returns no other error: whenever it returns one, it is the error of one of
    its fades, and nothing but \<open>setColor(ColorOff)\<close> followed it;
  \<^item> a stop signal or a reset flag found at the start of a cycle makes the pulse return
    nil, the result of its \<open>setColor(ColorOff)\<close> dropped;
  \<^item> \<open>BlinkColor\<close> drops the results of all its writes: whenever it returns, it
    returns nil.
\<close>

theorem write_failure_in_primitives:
  "(ledEnabled s \<and> in_range c \<longrightarrow>
      ((\<exists>p. fst (setColor c s) = Some (SetFailed p)) = (True \<in> set (take 3 (io_faults s))))) \<and>
   (step \<le> steps \<and> \<not> ready stop s \<and> effectActive s \<and>
      setColor (blend mix c1 c2 step steps) s = (Some e, s1) \<longrightarrow>
      fade_loop mix c1 c2 steps stepDuration stop step s = (Some e, snd (setColor ColorOff s1))) \<and>
   (fade_loop mix c1 c2 steps stepDuration stop step s = (Some e, s') \<longrightarrow>
      (\<exists>k s0. step \<le> k \<and> k \<le> steps \<and> \<not> ready stop s0 \<and> effectActive s0 \<and>
         fst (setColor (blend mix c1 c2 k steps) s0) = Some e \<and>
         s' = snd (setColor ColorOff (snd (setColor (blend mix c1 c2 k steps) s0))))) \<and>
   (step \<le> steps \<and> ready stop s \<longrightarrow>
      fade_loop mix c1 c2 steps stepDuration stop step s
        = (None, snd (setColor ColorOff (recv stop s)))) \<and>
   (step \<le> steps \<and> \<not> ready stop s \<and> \<not> effectActive s \<longrightarrow>
      fade_loop mix c1 c2 steps stepDuration stop step s = (None, snd (setColor ColorOff s))) \<and>
   ((pulseCount = 0 \<or> i < pulseCount) \<and> \<not> ready stop s \<and> effectActive s \<and>
      FadeColor mix ColorOff color halfDuration stop s = (Some e, s1) \<longrightarrow>
      pulse_loop mix color pulseCount halfDuration stop i s = Some (Some e, snd (setColor ColorOff s1))) \<and>
   ((pulseCount = 0 \<or> i < pulseCount) \<and> \<not> ready stop s \<and> effectActive s \<and>
      FadeColor mix ColorOff color halfDuration stop s = (None, s1) \<and>
      \<not> ready stop s1 \<and> effectActive s1 \<and>
      FadeColor mix color ColorOff halfDuration stop s1 = (Some e, s2) \<longrightarrow>
      pulse_loop mix color pulseCount halfDuration stop i s = Some (Some e, snd (setColor ColorOff s2))) \<and>
   (pulse_loop mix color pulseCount halfDuration stop i s = Some (Some e, s') \<longrightarrow>
      (\<exists>a b s0. fst (FadeColor mix a b halfDuration stop s0) = Some e \<and>
         s' = snd (setColor ColorOff (snd (FadeColor mix a b halfDuration stop s0))))) \<and>
   ((pulseCount = 0 \<or> i < pulseCount) \<and> ready stop s \<longrightarrow>
      pulse_loop mix color pulseCount halfDuration stop i s
        = Some (None, snd (setColor ColorOff (recv stop s)))) \<and>
   ((pulseCount = 0 \<or> i < pulseCount) \<and> \<not> ready stop s \<and> \<not> effectActive s \<longrightarrow>
      pulse_loop mix color pulseCount halfDuration stop i s = Some (None, snd (setColor ColorOff s))) \<and>
   (blink_loop color blinkCount onDuration offDuration stop i s = Some (r, s') \<longrightarrow> r = None)"
proof -
  have p_origin: "pulse_loop mix color pulseCount halfDuration stop i s = Some (Some e, s') \<longrightarrow>
      (\<exists>a b s0. fst (FadeColor mix a b halfDuration stop s0) = Some e \<and>
         s' = snd (setColor ColorOff (snd (FadeColor mix a b halfDuration stop s0))))"
  proof
    assume run: "pulse_loop mix color pulseCount halfDuration stop i s = Some (Some e, s')"
    from pulse_loop_error_origin [OF run]
    obtain a b s0 where
      "FadeColor mix a b halfDuration stop s0 = (Some e, snd (FadeColor mix a b halfDuration stop s0))"
      "s' = snd (setColor ColorOff (snd (FadeColor mix a b halfDuration stop s0)))"
      by auto
    then have "fst (FadeColor mix a b halfDuration stop s0) = Some e \<and>
         s' = snd (setColor ColorOff (snd (FadeColor mix a b halfDuration stop s0)))"
      by (metis fst_conv)
    then show "\<exists>a b s0. fst (FadeColor mix a b halfDuration stop s0) = Some e \<and>
         s' = snd (setColor ColorOff (snd (FadeColor mix a b halfDuration stop s0)))"
      by blast
  qed
  show ?thesis
    using setColor_error_iff [of s c]
      fade_loop_write_error [of step steps stop s mix c1 c2 e s1 stepDuration]
      fade_loop_error_origin [of mix c1 c2 steps stepDuration stop step s e s']
      fade_loop_cancelled [of step steps stop s mix c1 c2 stepDuration]
      pulse_loop_first_fade_error [of pulseCount i stop s mix color halfDuration e s1]
      pulse_loop_second_fade_error [of pulseCount i stop s mix color halfDuration s1 e s2]
      p_origin
      pulse_loop_cancelled [of pulseCount i stop s mix color halfDuration]
      blink_loop_no_error [of color blinkCount onDuration offDuration stop i s "(r, s')"]
    by (intro conjI impI) (simp_all only: fst_conv, blast+)
qed

theorem write_failure_in_primitives_witness:
  "ledEnabled run_state \<and> in_range ColorRed \<and>
   setColor ColorRed (run_state\<lparr>io_faults := [False, True]\<rparr>)
     = (Some (SetFailed GreenLEDPath),
        run_state\<lparr>red_led := 255, write_log := [(RedLEDPath, 255), (GreenLEDPath, 0)]\<rparr>) \<and>
   fade_loop lerp ColorOff ColorRed 50 (10 * ms) 1 7 (run_state\<lparr>io_faults := [True]\<rparr>)
     = (Some (SetFailed RedLEDPath),
        run_state\<lparr>write_log := [(RedLEDPath, 35), (RedLEDPath, 0), (GreenLEDPath, 0), (BlueLEDPath, 0)]\<rparr>) \<and>
   (\<exists>k s0. 7 \<le> k \<and> k \<le> 50 \<and> \<not> ready 1 s0 \<and> effectActive s0 \<and>
      fst (setColor (blend lerp ColorOff ColorRed k 50) s0) = Some (SetFailed RedLEDPath)) \<and>
   fade_loop lerp ColorOff ColorRed 50 (10 * ms) 1 7
       (run_state\<lparr>chans := [(5, 0), (5, 1)], io_faults := [True]\<rparr>)
     = (None, run_state\<lparr>write_log := [(RedLEDPath, 0)]\<rparr>) \<and>
   fade_loop lerp ColorOff ColorRed 50 (10 * ms) 1 7
       (run_state\<lparr>effectActive := False, io_faults := [True]\<rparr>)
     = (None, run_state\<lparr>effectActive := False, write_log := [(RedLEDPath, 0)]\<rparr>) \<and>
   pulse_loop lerp ColorRed 0 (500 * ms) 1 0 (run_state\<lparr>io_faults := [True]\<rparr>)
     = Some (Some (SetFailed RedLEDPath),
        run_state\<lparr>write_log := [(RedLEDPath, 0), (RedLEDPath, 0), (GreenLEDPath, 0), (BlueLEDPath, 0),
          (RedLEDPath, 0), (GreenLEDPath, 0), (BlueLEDPath, 0)]\<rparr>) \<and>
   (\<exists>a b s0. fst (FadeColor lerp a b (500 * ms) 1 s0) = Some (SetFailed RedLEDPath)) \<and>
   FadeColor lerp ColorOff ColorRed (100 * ms) 1
       (run_state\<lparr>io_faults := [False, False, False, False, False, False, True], events := [(5, Signal 1)]\<rparr>)
     = (None, run_state\<lparr>write_log := [(RedLEDPath, 0), (GreenLEDPath, 0), (BlueLEDPath, 0),
          (RedLEDPath, 0), (GreenLEDPath, 0), (BlueLEDPath, 0)],
          io_faults := [True], now := 5, timers := [2 * ms]\<rparr>) \<and>
   pulse_loop lerp ColorRed 1 (100 * ms) 1 0
       (run_state\<lparr>io_faults := [False, False, False, False, False, False, True], events := [(5, Signal 1)]\<rparr>)
     = Some (Some (SetFailed RedLEDPath),
         run_state\<lparr>write_log := [(RedLEDPath, 0), (GreenLEDPath, 0), (BlueLEDPath, 0),
          (RedLEDPath, 0), (GreenLEDPath, 0), (BlueLEDPath, 0),
          (RedLEDPath, 255), (RedLEDPath, 0), (GreenLEDPath, 0), (BlueLEDPath, 0),
          (RedLEDPath, 0), (GreenLEDPath, 0), (BlueLEDPath, 0)],
          now := 5, timers := [2 * ms]\<rparr>) \<and>
   pulse_loop lerp ColorRed 0 (500 * ms) 1 0
       (run_state\<lparr>chans := [(5, 0), (5, 1)], io_faults := [True]\<rparr>)
     = Some (None, run_state\<lparr>write_log := [(RedLEDPath, 0)]\<rparr>) \<and>
   pulse_loop lerp ColorRed 0 (500 * ms) 1 0
       (run_state\<lparr>effectActive := False, io_faults := [True]\<rparr>)
     = Some (None, run_state\<lparr>effectActive := False, write_log := [(RedLEDPath, 0)]\<rparr>) \<and>
   blink_loop ColorRed 1 (200 * ms) (400 * ms) 1 0 (run_state\<lparr>io_faults := [True]\<rparr>)
     = Some (None, run_state\<lparr>write_log := [(RedLEDPath, 255), (RedLEDPath, 0), (GreenLEDPath, 0),
          (BlueLEDPath, 0)], now := 600 * ms, timers := [200 * ms, 400 * ms]\<rparr>)"
proof -
  let ?w = "run_state\<lparr>io_faults := [True]\<rparr>"
  let ?g = "run_state\<lparr>io_faults := [False, True]\<rparr>"
  let ?z = "run_state\<lparr>chans := [(5, 0), (5, 1)], io_faults := [True]\<rparr>"
  let ?d = "run_state\<lparr>effectActive := False, io_faults := [True]\<rparr>"
  let ?v = "run_state\<lparr>io_faults := [False, False, False, False, False, False, True],
              events := [(5, Signal 1)]\<rparr>"
  let ?v1 = "run_state\<lparr>write_log := [(RedLEDPath, 0), (GreenLEDPath, 0), (BlueLEDPath, 0),
          (RedLEDPath, 0), (GreenLEDPath, 0), (BlueLEDPath, 0)],
          io_faults := [True], now := 5, timers := [2 * ms]\<rparr>"
  note sink = run_state_def init_state_def ready_def recv_def setColor_def setRed_def setGreen_def
    setBlue_def WriteFile_def store_def clamp255_def IsLEDEnabled_def ColorOff_def ColorRed_def Let_def
  have h: "ledEnabled run_state" "in_range ColorRed"
    by (simp_all add: run_state_def init_state_def in_range_def ColorRed_def)
  have k0: "setColor ColorRed ?g
     = (Some (SetFailed GreenLEDPath),
        run_state\<lparr>red_led := 255, write_log := [(RedLEDPath, 255), (GreenLEDPath, 0)]\<rparr>)"
    using write_failure_in_primitives [where s = ?g and c = ColorRed, THEN conjunct1]
    by (simp add: sink)
  have k2: "fade_loop lerp ColorOff ColorRed 50 (10 * ms) 1 7 ?w
     = (Some (SetFailed RedLEDPath),
        run_state\<lparr>write_log := [(RedLEDPath, 35), (RedLEDPath, 0), (GreenLEDPath, 0), (BlueLEDPath, 0)]\<rparr>)"
    using write_failure_in_primitives [where s = ?w and step = 7 and steps = 50 and stop = 1
        and mix = lerp and ?c1.0 = ColorOff and ?c2.0 = ColorRed and e = "SetFailed RedLEDPath"
        and ?s1.0 = "run_state\<lparr>write_log := [(RedLEDPath, 35)]\<rparr>" and stepDuration = "10 * ms", THEN conjunct2, THEN conjunct1]
    by (simp add: run_defs)
  have k3: "\<exists>k s0. 7 \<le> k \<and> k \<le> 50 \<and> \<not> ready 1 s0 \<and> effectActive s0 \<and>
      fst (setColor (blend lerp ColorOff ColorRed k 50) s0) = Some (SetFailed RedLEDPath)"
    using write_failure_in_primitives [where s = ?w and step = 7 and steps = 50 and stop = 1
        and mix = lerp and ?c1.0 = ColorOff and ?c2.0 = ColorRed and e = "SetFailed RedLEDPath"
        and stepDuration = "10 * ms"
        and s' = "run_state\<lparr>write_log := [(RedLEDPath, 35), (RedLEDPath, 0), (GreenLEDPath, 0), (BlueLEDPath, 0)]\<rparr>", THEN conjunct2, THEN conjunct2, THEN conjunct1]
      k2
    by blast
  have k4: "fade_loop lerp ColorOff ColorRed 50 (10 * ms) 1 7 ?z
     = (None, run_state\<lparr>write_log := [(RedLEDPath, 0)]\<rparr>)"
    using write_failure_in_primitives [where s = ?z and step = 7 and steps = 50 and stop = 1
        and mix = lerp and ?c1.0 = ColorOff and ?c2.0 = ColorRed and stepDuration = "10 * ms", THEN conjunct2, THEN conjunct2, THEN conjunct2, THEN conjunct1]
    by (simp add: sink)
  have k5: "fade_loop lerp ColorOff ColorRed 50 (10 * ms) 1 7 ?d
     = (None, run_state\<lparr>effectActive := False, write_log := [(RedLEDPath, 0)]\<rparr>)"
    using write_failure_in_primitives [where s = ?d and step = 7 and steps = 50 and stop = 1
        and mix = lerp and ?c1.0 = ColorOff and ?c2.0 = ColorRed and stepDuration = "10 * ms", THEN conjunct2, THEN conjunct2, THEN conjunct2, THEN conjunct2, THEN conjunct1]
    by (simp add: sink)
  have f1: "FadeColor lerp ColorOff ColorRed (500 * ms) 1 ?w
     = (Some (SetFailed RedLEDPath),
        run_state\<lparr>write_log := [(RedLEDPath, 0), (RedLEDPath, 0), (GreenLEDPath, 0), (BlueLEDPath, 0)]\<rparr>)"
    by (simp add: run_defs fade_loop.simps)
  have k6: "pulse_loop lerp ColorRed 0 (500 * ms) 1 0 ?w
     = Some (Some (SetFailed RedLEDPath),
        run_state\<lparr>write_log := [(RedLEDPath, 0), (RedLEDPath, 0), (GreenLEDPath, 0), (BlueLEDPath, 0),
          (RedLEDPath, 0), (GreenLEDPath, 0), (BlueLEDPath, 0)]\<rparr>)"
    using write_failure_in_primitives [where s = ?w and pulseCount = 0 and i = 0 and stop = 1
        and mix = lerp and color = ColorRed and halfDuration = "500 * ms" and e = "SetFailed RedLEDPath"
        and ?s1.0 = "run_state\<lparr>write_log := [(RedLEDPath, 0), (RedLEDPath, 0), (GreenLEDPath, 0), (BlueLEDPath, 0)]\<rparr>", THEN conjunct2, THEN conjunct2, THEN conjunct2, THEN conjunct2, THEN conjunct2, THEN conjunct1]
      f1
    by (simp add: sink)
  have k7: "\<exists>a b s0. fst (FadeColor lerp a b (500 * ms) 1 s0) = Some (SetFailed RedLEDPath)"
    using write_failure_in_primitives [where s = ?w and pulseCount = 0 and i = 0 and stop = 1
        and mix = lerp and color = ColorRed and halfDuration = "500 * ms" and e = "SetFailed RedLEDPath"
        and s' = "run_state\<lparr>write_log := [(RedLEDPath, 0), (RedLEDPath, 0), (GreenLEDPath, 0), (BlueLEDPath, 0),
          (RedLEDPath, 0), (GreenLEDPath, 0), (BlueLEDPath, 0)]\<rparr>", THEN conjunct2, THEN conjunct2, THEN conjunct2, THEN conjunct2, THEN conjunct2, THEN conjunct2, THEN conjunct2, THEN conjunct1]
      k6
    by blast
  have f2: "FadeColor lerp ColorOff ColorRed (100 * ms) 1 ?v = (None, ?v1)"
    by (simp add: run_defs fade_loop.simps fade_sleep.simps)
  have f3: "FadeColor lerp ColorRed ColorOff (100 * ms) 1 ?v1
     = (Some (SetFailed RedLEDPath),
        ?v1\<lparr>write_log := write_log ?v1 @ [(RedLEDPath, 255), (RedLEDPath, 0), (GreenLEDPath, 0), (BlueLEDPath, 0)],
             io_faults := []\<rparr>)"
    by (simp add: run_defs fade_loop.simps)
  have k8: "pulse_loop lerp ColorRed 1 (100 * ms) 1 0 ?v
     = Some (Some (SetFailed RedLEDPath),
         run_state\<lparr>write_log := [(RedLEDPath, 0), (GreenLEDPath, 0), (BlueLEDPath, 0),
          (RedLEDPath, 0), (GreenLEDPath, 0), (BlueLEDPath, 0),
          (RedLEDPath, 255), (RedLEDPath, 0), (GreenLEDPath, 0), (BlueLEDPath, 0),
          (RedLEDPath, 0), (GreenLEDPath, 0), (BlueLEDPath, 0)],
          now := 5, timers := [2 * ms]\<rparr>)"
    using write_failure_in_primitives [where s = ?v and pulseCount = 1 and i = 0 and stop = 1
        and mix = lerp and color = ColorRed and halfDuration = "100 * ms" and e = "SetFailed RedLEDPath"
        and ?s1.0 = ?v1
        and ?s2.0 = "?v1\<lparr>write_log := write_log ?v1 @ [(RedLEDPath, 255), (RedLEDPath, 0), (GreenLEDPath, 0), (BlueLEDPath, 0)],
             io_faults := []\<rparr>", THEN conjunct2, THEN conjunct2, THEN conjunct2, THEN conjunct2, THEN conjunct2, THEN conjunct2, THEN conjunct1]
      f2 f3
    by (simp add: sink)
  have k9: "pulse_loop lerp ColorRed 0 (500 * ms) 1 0 ?z
     = Some (None, run_state\<lparr>write_log := [(RedLEDPath, 0)]\<rparr>)"
    using write_failure_in_primitives [where s = ?z and pulseCount = 0 and i = 0 and stop = 1
        and mix = lerp and color = ColorRed and halfDuration = "500 * ms", THEN conjunct2, THEN conjunct2, THEN conjunct2, THEN conjunct2, THEN conjunct2, THEN conjunct2, THEN conjunct2, THEN conjunct2, THEN conjunct1]
    by (simp add: sink)
  have k10: "pulse_loop lerp ColorRed 0 (500 * ms) 1 0 ?d
     = Some (None, run_state\<lparr>effectActive := False, write_log := [(RedLEDPath, 0)]\<rparr>)"
    using write_failure_in_primitives [where s = ?d and pulseCount = 0 and i = 0 and stop = 1
        and mix = lerp and color = ColorRed and halfDuration = "500 * ms", THEN conjunct2, THEN conjunct2, THEN conjunct2, THEN conjunct2, THEN conjunct2, THEN conjunct2, THEN conjunct2, THEN conjunct2, THEN conjunct2, THEN conjunct1]
    by (simp add: sink)
  have k11: "blink_loop ColorRed 1 (200 * ms) (400 * ms) 1 0 ?w
     = Some (None, run_state\<lparr>write_log := [(RedLEDPath, 255), (RedLEDPath, 0), (GreenLEDPath, 0),
          (BlueLEDPath, 0)], now := 600 * ms, timers := [200 * ms, 400 * ms]\<rparr>)"
    using write_failure_in_primitives [where color = ColorRed and blinkCount = 1
        and onDuration = "200 * ms" and offDuration = "400 * ms" and stop = 1 and i = 0 and s = ?w
        and r = None, THEN conjunct2, THEN conjunct2, THEN conjunct2, THEN conjunct2, THEN conjunct2, THEN conjunct2, THEN conjunct2, THEN conjunct2, THEN conjunct2, THEN conjunct2]
    by (simp add: run_defs blink_loop.simps)
  show ?thesis
    using h k0 k2 k3 k4 k5 k6 k7 f2 k8 k9 k10 k11 by (intro conjI)
qed


















end
